theory Spec2Isabelle
  imports Complex_Main "HOL-Library.AList"
begin

section \<open>The in-memory location service\<close>

text \<open>
  The store of the location service keeps two JavaScript \<open>Map\<close>s: the active user
  locations and the police pins. A \<open>Map\<close> iterates in insertion order, \<open>set\<close> on a
  present key replaces the value in place and on an absent key appends, \<open>delete\<close> drops
  the entry: an association list with \<open>AList.update\<close> and \<open>AList.delete\<close>. That the keys
  of such a list are distinct is the predicate \<open>is_Map\<close>; \<open>storeOk\<close> says it of both
  maps of a store. The empty store satisfies it and every operation preserves it.

  Modelling decisions.
  \<^item> A \<open>Date\<close> is its time value \<open>getTime()\<close>, an integer number of milliseconds.
    Every \<open>new Date()\<close> and \<open>Date.now()\<close> of the source is a reading of the clock of
    its own, so each operation takes one argument per reading, in the order in which
    the source reads the clock.
  \<^item> A \<open>number\<close> that holds a coordinate or a distance is a real: the rounding of the
    double arithmetic, infinities and NaN are not modelled.
  \<^item> The record fields \<open>id\<close>, \<open>name\<close>, \<open>latitude\<close>, \<open>longitude\<close> and \<open>userId\<close>,
    \<open>userName\<close> carry the prefix \<open>loc_\<close> or \<open>pin_\<close>, since both interfaces share names
    and \<open>id\<close> is a constant of HOL.
  \<^item> An optional string argument (\<open>name?: string\<close>) is a \<open>string option\<close>. A string is a
    list of characters, and \<open>slice(0, 4)\<close> is \<open>take 4\<close>.
  \<^item> Each operation takes the store and returns its result together with the store it
    leaves.
\<close>

subsection \<open>Data\<close>

record UserLocation =
  loc_id :: string
  loc_name :: string
  loc_latitude :: real
  loc_longitude :: real
  lastUpdated :: int

record PolicePin =
  pin_id :: string
  pin_userId :: string
  pin_userName :: string
  pin_latitude :: real
  pin_longitude :: real
  createdAt :: int

record Store =
  activeLocations :: "(string \<times> UserLocation) list"
  policePins :: "(string \<times> PolicePin) list"

text \<open>The object returned by the mutating operations: \<open>{ success }\<close> or
  \<open>{ success, error }\<close>.\<close>

record Result =
  success :: bool
  error :: "string option"

definition is_Map :: "('k \<times> 'v) list \<Rightarrow> bool" where
  "is_Map m = distinct (map fst m)"

definition storeOk :: "Store \<Rightarrow> bool" where
  "storeOk st = (is_Map (activeLocations st) \<and> is_Map (policePins st))"

definition emptyStore :: Store where
  "emptyStore = \<lparr>activeLocations = [], policePins = []\<rparr>"

subsection \<open>Constants\<close>

definition STALE_THRESHOLD :: int where
  "STALE_THRESHOLD = 30 * 1000"

definition POLICE_PIN_THRESHOLD :: int where
  "POLICE_PIN_THRESHOLD = 20 * 60 * 1000"

subsection \<open>Eviction\<close>

text \<open>The loops run over the entries of the map and delete, by key, each entry that
  is too old.\<close>

definition cleanStaleLocations :: "int \<Rightarrow> Store \<Rightarrow> Store" where
  "cleanStaleLocations now st =
     st\<lparr>activeLocations :=
          fold (\<lambda>(k, location) m.
                  if now - lastUpdated location > STALE_THRESHOLD then AList.delete k m else m)
               (activeLocations st) (activeLocations st)\<rparr>"

definition cleanStalePolicePins :: "int \<Rightarrow> Store \<Rightarrow> Store" where
  "cleanStalePolicePins now st =
     st\<lparr>policePins :=
          fold (\<lambda>(k, pin) m.
                  if now - createdAt pin > POLICE_PIN_THRESHOLD then AList.delete k m else m)
               (policePins st) (policePins st)\<rparr>"

subsection \<open>Distance\<close>

text \<open>\<open>Math.atan2(y, x)\<close> on real arguments.\<close>

definition atan2 :: "real \<Rightarrow> real \<Rightarrow> real" where
  "atan2 y x =
     (if 0 < x then arctan (y / x)
      else if x < 0 then (if 0 \<le> y then arctan (y / x) + pi else arctan (y / x) - pi)
      else if 0 < y then pi / 2
      else if y < 0 then - (pi / 2)
      else 0)"

definition calculateDistance :: "real \<Rightarrow> real \<Rightarrow> real \<Rightarrow> real \<Rightarrow> real" where
  "calculateDistance lat1 lon1 lat2 lon2 =
     (let R = 6371000;
          phi1 = (lat1 * pi) / 180;
          phi2 = (lat2 * pi) / 180;
          dphi = ((lat2 - lat1) * pi) / 180;
          dlambda = ((lon2 - lon1) * pi) / 180;
          a = sin (dphi / 2) * sin (dphi / 2)
              + cos phi1 * cos phi2 * sin (dlambda / 2) * sin (dlambda / 2);
          c = 2 * atan2 (sqrt a) (sqrt (1 - a))
      in R * c)"

text \<open>The formula that the name Haversine stands for, with the Earth radius 6371000 m:
  twice the radius times the arc sine of the square root of the haversine of the
  central angle. It is written from the specification's words, for the comparison with
  \<open>calculateDistance\<close>, which is written from the source.\<close>

definition hav :: "real \<Rightarrow> real" where
  "hav x = (sin (x / 2))\<^sup>2"

definition haversine_spec :: "real \<Rightarrow> real \<Rightarrow> real \<Rightarrow> real \<Rightarrow> real" where
  "haversine_spec lat1 lon1 lat2 lon2 =
     2 * 6371000 *
       arcsin (sqrt (hav (lat2 * pi / 180 - lat1 * pi / 180)
                     + cos (lat1 * pi / 180) * cos (lat2 * pi / 180)
                       * hav (lon2 * pi / 180 - lon1 * pi / 180)))"

subsection \<open>Active locations\<close>

text \<open>\<open>name || `User ${userId.slice(0, 4)}`\<close>: an absent and an empty name are both
  falsy.\<close>

definition nameOrDefault :: "string option \<Rightarrow> string \<Rightarrow> string" where
  "nameOrDefault name userId =
     (case name of
        None \<Rightarrow> ''User '' @ take 4 userId
      | Some s \<Rightarrow> if s = [] then ''User '' @ take 4 userId else s)"

definition updateLocation ::
  "int \<Rightarrow> int \<Rightarrow> string \<Rightarrow> real \<Rightarrow> real \<Rightarrow> string option \<Rightarrow> Store \<Rightarrow> Result \<times> Store" where
  "updateLocation now stamp userId latitude longitude name st =
     (let st1 = cleanStaleLocations now st;
          location = \<lparr>loc_id = userId, loc_name = nameOrDefault name userId,
                      loc_latitude = latitude, loc_longitude = longitude,
                      lastUpdated = stamp\<rparr>
      in (\<lparr>success = True, error = None\<rparr>,
          st1\<lparr>activeLocations := AList.update userId location (activeLocations st1)\<rparr>))"

definition removeLocation :: "string \<Rightarrow> Store \<Rightarrow> Result \<times> Store" where
  "removeLocation userId st =
     (\<lparr>success = True, error = None\<rparr>,
      st\<lparr>activeLocations := AList.delete userId (activeLocations st)\<rparr>)"

definition getAllLocations :: "int \<Rightarrow> Store \<Rightarrow> UserLocation list \<times> Store" where
  "getAllLocations now st =
     (let st1 = cleanStaleLocations now st in (map snd (activeLocations st1), st1))"

definition getLocationCount :: "int \<Rightarrow> Store \<Rightarrow> nat \<times> Store" where
  "getLocationCount now st =
     (let st1 = cleanStaleLocations now st in (length (activeLocations st1), st1))"

subsection \<open>Police pins\<close>

text \<open>The decimal rendering of the integer that \<open>Date.now()\<close> returns, as the template
  literal produces it.\<close>

definition digitChar :: "nat \<Rightarrow> char" where
  "digitChar d = ''0123456789'' ! d"

fun natToString :: "nat \<Rightarrow> string" where
  "natToString n = (if n < 10 then [digitChar n] else natToString (n div 10) @ [digitChar (n mod 10)])"

declare natToString.simps [simp del]

definition numberToString :: "int \<Rightarrow> string" where
  "numberToString i = (if i < 0 then ''-'' @ natToString (nat (- i)) else natToString (nat i))"

text \<open>The loop over \<open>policePins.values()\<close> that returns at the first pin of the caller
  closer than 100 metres; \<open>True\<close> is that early return.\<close>

fun pinWithin100 :: "string \<Rightarrow> real \<Rightarrow> real \<Rightarrow> PolicePin list \<Rightarrow> bool" where
  "pinWithin100 userId latitude longitude [] = False"
| "pinWithin100 userId latitude longitude (pin # pins) =
     (if pin_userId pin = userId then
        (let distance = calculateDistance (pin_latitude pin) (pin_longitude pin) latitude longitude
         in if distance < 100 then True else pinWithin100 userId latitude longitude pins)
      else pinWithin100 userId latitude longitude pins)"

definition addPolicePin ::
  "int \<Rightarrow> int \<Rightarrow> int \<Rightarrow> string \<Rightarrow> string \<Rightarrow> real \<Rightarrow> real \<Rightarrow> Store \<Rightarrow> Result \<times> Store" where
  "addPolicePin now idNow stamp userId userName latitude longitude st =
     (let st1 = cleanStalePolicePins now st in
      if pinWithin100 userId latitude longitude (map snd (policePins st1)) then
        (\<lparr>success = False,
          error = Some ''Cannot place pin within 100 meters of your existing pins''\<rparr>, st1)
      else
        (let pinId = userId @ ''-'' @ numberToString idNow;
             pin = \<lparr>pin_id = pinId, pin_userId = userId, pin_userName = userName,
                    pin_latitude = latitude, pin_longitude = longitude, createdAt = stamp\<rparr>
         in (\<lparr>success = True, error = None\<rparr>,
             st1\<lparr>policePins := AList.update pinId pin (policePins st1)\<rparr>)))"

definition getAllPolicePins :: "int \<Rightarrow> Store \<Rightarrow> PolicePin list \<times> Store" where
  "getAllPolicePins now st =
     (let st1 = cleanStalePolicePins now st in (map snd (policePins st1), st1))"

subsection \<open>Example stores\<close>

text \<open>Stores that the operations reach from the empty one; the closed examples below
  evaluate the operations on them.\<close>

definition pinA0 :: PolicePin where
  "pinA0 = \<lparr>pin_id = ''A-0'', pin_userId = ''A'', pin_userName = ''Ann'',
            pin_latitude = 0, pin_longitude = 0, createdAt = 0\<rparr>"

definition storeA :: Store where
  "storeA = \<lparr>activeLocations = [], policePins = [(''A-0'', pinA0)]\<rparr>"

definition pinB0 :: PolicePin where
  "pinB0 = \<lparr>pin_id = ''B-0'', pin_userId = ''B'', pin_userName = ''Bob'',
            pin_latitude = 0, pin_longitude = 0, createdAt = 0\<rparr>"

definition storeAB :: Store where
  "storeAB = \<lparr>activeLocations = [], policePins = [(''A-0'', pinA0), (''B-0'', pinB0)]\<rparr>"

definition locAnn :: UserLocation where
  "locAnn = \<lparr>loc_id = ''u1abc'', loc_name = ''Ann'', loc_latitude = 40, loc_longitude = - 73,
             lastUpdated = 0\<rparr>"

definition storeAnn :: Store where
  "storeAnn = \<lparr>activeLocations = [(''u1abc'', locAnn)], policePins = []\<rparr>"

definition locOld :: UserLocation where
  "locOld = \<lparr>loc_id = ''old'', loc_name = ''Old'', loc_latitude = 1, loc_longitude = 2,
             lastUpdated = 0\<rparr>"

definition storeTwo :: Store where
  "storeTwo = \<lparr>activeLocations = [(''old'', locOld), (''u1abc'', locAnn\<lparr>lastUpdated := 1\<rparr>)],
               policePins = []\<rparr>"

definition pinA180 :: PolicePin where
  "pinA180 = \<lparr>pin_id = ''A-0'', pin_userId = ''A'', pin_userName = ''Ann'',
            pin_latitude = 0, pin_longitude = 180, createdAt = 0\<rparr>"

section \<open>Properties of the map operations\<close>

lemma fold_delete_conv:
  "fold (\<lambda>(k, v) m. if P v then AList.delete k m else m) xs acc
     = filter (\<lambda>(k, v). \<not> (\<exists>v'. (k, v') \<in> set xs \<and> P v')) acc"
proof (induction xs arbitrary: acc)
  case Nil
  show ?case by simp
next
  case (Cons x xs)
  obtain k v where x: "x = (k, v)" by (cases x)
  show ?case
  proof (cases "P v")
    case True
    have "fold (\<lambda>(k, v) m. if P v then AList.delete k m else m) (x # xs) acc
            = filter (\<lambda>(k', v). \<not> (\<exists>v'. (k', v') \<in> set xs \<and> P v')) (AList.delete k acc)"
      using True x Cons.IH [of "AList.delete k acc"] by simp
    also have "\<dots> = filter (\<lambda>(k', v). \<not> (\<exists>v'. (k', v') \<in> set (x # xs) \<and> P v')) acc"
      using True x by (auto simp: AList.delete_eq intro!: filter_cong)
    finally show ?thesis .
  next
    case False
    have "fold (\<lambda>(k, v) m. if P v then AList.delete k m else m) (x # xs) acc
            = filter (\<lambda>(k', v). \<not> (\<exists>v'. (k', v') \<in> set xs \<and> P v')) acc"
      using False x Cons.IH [of acc] by simp
    also have "\<dots> = filter (\<lambda>(k', v). \<not> (\<exists>v'. (k', v') \<in> set (x # xs) \<and> P v')) acc"
      using False x by (auto intro!: filter_cong)
    finally show ?thesis .
  qed
qed

lemma fold_delete_filter:
  assumes "is_Map m"
  shows "fold (\<lambda>(k, v) acc. if P v then AList.delete k acc else acc) m m
           = filter (\<lambda>(k, v). \<not> P v) m"
proof -
  have "filter (\<lambda>(k, v). \<not> (\<exists>v'. (k, v') \<in> set m \<and> P v')) m = filter (\<lambda>(k, v). \<not> P v) m"
  proof (rule filter_cong [OF refl])
    fix x assume x: "x \<in> set m"
    obtain k v where kv: "x = (k, v)" by (cases x)
    have "(\<exists>v'. (k, v') \<in> set m \<and> P v') \<longleftrightarrow> P v"
      using assms x kv by (auto simp: is_Map_def dest: eq_key_imp_eq_value)
    then show "(case x of (k, v) \<Rightarrow> \<not> (\<exists>v'. (k, v') \<in> set m \<and> P v'))
                 = (case x of (k, v) \<Rightarrow> \<not> P v)"
      unfolding kv by simp blast
  qed
  then show ?thesis by (simp add: fold_delete_conv)
qed

lemma is_Map_filter: "is_Map m \<Longrightarrow> is_Map (filter P m)"
  by (simp add: is_Map_def distinct_map_filter)

lemma is_Map_update: "is_Map m \<Longrightarrow> is_Map (AList.update k v m)"
  by (simp add: is_Map_def distinct_update)

lemma is_Map_delete: "is_Map m \<Longrightarrow> is_Map (AList.delete k m)"
  by (simp add: is_Map_def distinct_delete)

lemma activeLocations_clean:
  "is_Map (activeLocations st) \<Longrightarrow>
   activeLocations (cleanStaleLocations now st)
     = filter (\<lambda>(k, l). \<not> now - lastUpdated l > 30000) (activeLocations st)"
  by (simp add: cleanStaleLocations_def STALE_THRESHOLD_def fold_delete_filter)

lemma policePins_clean:
  "is_Map (policePins st) \<Longrightarrow>
   policePins (cleanStalePolicePins now st)
     = filter (\<lambda>(k, p). \<not> now - createdAt p > 1200000) (policePins st)"
  by (simp add: cleanStalePolicePins_def POLICE_PIN_THRESHOLD_def fold_delete_filter)

lemma update_fresh_append: "k \<notin> fst ` set m \<Longrightarrow> AList.update k v m = m @ [(k, v)]"
  by (induction m) auto

lemma map_of_filter_value:
  "is_Map m \<Longrightarrow>
   map_of (filter (\<lambda>(k, v). P v) m) k
     = (case map_of m k of None \<Rightarrow> None | Some v \<Rightarrow> if P v then Some v else None)"
proof (induction m)
  case Nil
  show ?case by simp
next
  case (Cons x m)
  obtain k' v' where x: "x = (k', v')" by (cases x)
  have m: "is_Map m" and fresh: "k' \<notin> fst ` set m"
    using Cons.prems x by (auto simp: is_Map_def)
  have none: "map_of m k' = None" using fresh by (simp add: map_of_eq_None_iff)
  show ?case
  proof (cases "k = k'")
    case True
    then show ?thesis using x none Cons.IH [OF m] by simp
  next
    case False
    then show ?thesis using x Cons.IH [OF m] by simp
  qed
qed

section \<open>Properties of the pin identifiers\<close>

lemma digitChar_simps:
  "digitChar 0 = CHR ''0''" "digitChar (Suc 0) = CHR ''1''" "digitChar 2 = CHR ''2''"
  "digitChar 3 = CHR ''3''" "digitChar 4 = CHR ''4''" "digitChar 5 = CHR ''5''"
  "digitChar 6 = CHR ''6''" "digitChar 7 = CHR ''7''" "digitChar 8 = CHR ''8''"
  "digitChar 9 = CHR ''9''"
  by (simp_all add: digitChar_def)

lemma digit_cases: "(d::nat) < 10 \<Longrightarrow> d \<in> {0, 1, 2, 3, 4, 5, 6, 7, 8, 9}"
  by auto

lemma digitChar_inj: "a < 10 \<Longrightarrow> b < 10 \<Longrightarrow> digitChar a = digitChar b \<Longrightarrow> a = b"
  using digit_cases [of a] digit_cases [of b] by (auto simp: digitChar_simps)

lemma digitChar_not_minus: "d < 10 \<Longrightarrow> digitChar d \<noteq> CHR ''-''"
  using digit_cases [of d] by (auto simp: digitChar_simps)

lemma natToString_small: "n < 10 \<Longrightarrow> natToString n = [digitChar n]"
  by (simp add: natToString.simps)

lemma natToString_big:
  "\<not> n < 10 \<Longrightarrow> natToString n = natToString (n div 10) @ [digitChar (n mod 10)]"
  by (subst natToString.simps) simp

lemma natToString_nonempty: "natToString n \<noteq> []"
  by (cases "n < 10") (simp_all add: natToString_small natToString_big)

lemma natToString_no_minus: "CHR ''-'' \<notin> set (natToString n)"
proof (induction n rule: natToString.induct)
  case (1 n)
  show ?case
  proof (cases "n < 10")
    case True
    then show ?thesis using digitChar_not_minus [of n] by (simp add: natToString_small)
  next
    case False
    then show ?thesis
      using 1 digitChar_not_minus [of "n mod 10"] by (simp add: natToString_big)
  qed
qed

lemma natToString_inj: "natToString a = natToString b \<Longrightarrow> a = b"
proof (induction a arbitrary: b rule: natToString.induct)
  case (1 a)
  show ?case
  proof (cases "a < 10")
    case a: True
    show ?thesis
    proof (cases "b < 10")
      case True
      then show ?thesis using a "1.prems" digitChar_inj by (simp add: natToString_small)
    next
      case False
      then show ?thesis
        using a "1.prems" natToString_nonempty [of "b div 10"]
        by (simp add: natToString_small natToString_big)
    qed
  next
    case a: False
    show ?thesis
    proof (cases "b < 10")
      case True
      then show ?thesis
        using a "1.prems" natToString_nonempty [of "a div 10"]
        by (simp add: natToString_small natToString_big)
    next
      case False
      have eq: "natToString (a div 10) = natToString (b div 10)"
        "digitChar (a mod 10) = digitChar (b mod 10)"
        using a False "1.prems" by (simp_all add: natToString_big)
      have "a div 10 = b div 10" using "1.IH" [OF a eq(1)] .
      moreover have "a mod 10 = b mod 10" using eq(2) digitChar_inj by simp
      ultimately show ?thesis by (metis div_mult_mod_eq)
    qed
  qed
qed

lemma numberToString_inj:
  "0 \<le> i \<Longrightarrow> 0 \<le> j \<Longrightarrow> numberToString i = numberToString j \<Longrightarrow> i = j"
  using natToString_inj [of "nat i" "nat j"] by (simp add: numberToString_def)

lemma numberToString_no_minus: "0 \<le> i \<Longrightarrow> CHR ''-'' \<notin> set (numberToString i)"
  by (simp add: numberToString_def natToString_no_minus)

lemma dash_suffix_inj:
  assumes "u @ ''-'' @ s = u' @ ''-'' @ s'" "CHR ''-'' \<notin> set s" "CHR ''-'' \<notin> set s'"
  shows "u = u' \<and> s = s'"
proof -
  have tw: "takeWhile (\<lambda>c. c \<noteq> CHR ''-'') (rev (v @ ''-'' @ t)) = rev t"
    if "CHR ''-'' \<notin> set t" for v t :: string
  proof -
    have "\<forall>x\<in>set (rev t). x \<noteq> CHR ''-''" using that by auto
    then show ?thesis by (simp add: takeWhile_tail)
  qed
  have a: "takeWhile (\<lambda>c. c \<noteq> CHR ''-'') (rev (u @ ''-'' @ s)) = rev s"
    by (rule tw [OF assms(2)])
  have b: "takeWhile (\<lambda>c. c \<noteq> CHR ''-'') (rev (u' @ ''-'' @ s')) = rev s'"
    by (rule tw [OF assms(3)])
  have "rev s = rev s'" using a b unfolding assms(1) by (rule trans [OF sym])
  then have s: "s = s'" by simp
  with assms(1) show ?thesis by simp
qed

lemma pinId_inj:
  "0 \<le> i \<Longrightarrow> 0 \<le> j \<Longrightarrow>
   (u @ ''-'' @ numberToString i = u' @ ''-'' @ numberToString j) = (u = u' \<and> i = j)"
  using dash_suffix_inj [of u "numberToString i" u' "numberToString j"]
    numberToString_no_minus numberToString_inj by blast

lemma numberToString_0: "numberToString 0 = ''0''"
  by (simp add: numberToString_def natToString_small digitChar_simps)

section \<open>Properties of the distance and of the exclusion loop\<close>

lemma calculateDistance_same: "calculateDistance lat lon lat lon = 0"
  by (simp add: calculateDistance_def atan2_def)

lemma calculateDistance_antipode: "calculateDistance 0 0 0 180 = 6371000 * pi"
  by (simp add: calculateDistance_def atan2_def)

lemma pinWithin100_iff:
  "pinWithin100 userId latitude longitude pins \<longleftrightarrow>
     (\<exists>p\<in>set pins. pin_userId p = userId
        \<and> calculateDistance (pin_latitude p) (pin_longitude p) latitude longitude < 100)"
  by (induction pins) (auto simp: Let_def)

lemma atan2_sin_cos:
  assumes "0 \<le> x" "x < pi / 2"
  shows "atan2 (sin x) (cos x) = x"
proof -
  have c: "0 < cos x" using assms by (intro cos_gt_zero_pi) auto
  have "arctan (sin x / cos x) = x"
    using assms arctan_tan [of x] by (simp add: tan_def)
  then show ?thesis using c by (simp add: atan2_def)
qed

lemma calculateDistance_equator:
  assumes "0 \<le> d" "d < 180"
  shows "calculateDistance 0 0 0 d = 6371000 * (d * pi / 180)"
proof -
  define x where "x = d * pi / 360"
  have x: "0 \<le> x" "x < pi / 2" using assms by (simp_all add: x_def)
  have s: "0 \<le> sin x" using x by (intro sin_ge_zero) auto
  have c: "0 < cos x" using x by (intro cos_gt_zero_pi) auto
  have "1 - sin x * sin x = cos x * cos x"
    using sin_cos_squared_add [of x] by (simp add: power2_eq_square algebra_simps)
  then have a: "atan2 (sqrt (sin x * sin x)) (sqrt (1 - sin x * sin x)) = x"
    using s c atan2_sin_cos [OF x] by simp
  have "calculateDistance 0 0 0 d
          = 6371000 * (2 * atan2 (sqrt (sin x * sin x)) (sqrt (1 - sin x * sin x)))"
    by (simp add: calculateDistance_def x_def)
  also have "\<dots> = 6371000 * (2 * x)" by (simp only: a)
  also have "\<dots> = 6371000 * (d * pi / 180)" by (simp add: x_def)
  finally show ?thesis .
qed

lemma calculateDistance_100: "calculateDistance 0 0 0 (18 / (6371 * pi)) = 100"
proof -
  have "18 / (6371 * pi) \<le> 18 / (6371 * 2)"
    using pi_ge_two by (intro divide_left_mono) auto
  then have "18 / (6371 * pi) < 180" by simp
  then show ?thesis using calculateDistance_equator [of "18 / (6371 * pi)"] by simp
qed

lemma abs_mult_le_half_squares: "\<bar>a * b\<bar> \<le> (a\<^sup>2 + b\<^sup>2) / (2::real)"
proof -
  have "0 \<le> (\<bar>a\<bar> - \<bar>b\<bar>)\<^sup>2" by simp
  then have "2 * (\<bar>a\<bar> * \<bar>b\<bar>) \<le> a\<^sup>2 + b\<^sup>2" by (simp add: power2_diff)
  then show ?thesis by (simp add: abs_mult)
qed

lemma hav_half_angle: "hav x = (1 - cos x) / 2"
  using cos_double_sin [of "x / 2"] by (simp add: hav_def)

lemma hav_range: "0 \<le> hav x" "hav x \<le> 1"
  using cos_ge_minus_one [of x] cos_le_one [of x] by (simp_all add: hav_half_angle)

lemma haversine_range:
  fixes p q l :: real
  defines "h \<equiv> hav (q - p) + cos p * cos q * hav l"
  shows "0 \<le> h" and "h \<le> 1"
proof -
  define t where "t = cos l"
  have t: "\<bar>t\<bar> \<le> 1" by (simp add: t_def abs_le_iff)
  have h: "h = (1 - (sin p * sin q + cos p * cos q * t)) / 2"
    by (simp add: h_def hav_half_angle cos_diff t_def field_simps)
  have "\<bar>cos p * cos q * t\<bar> \<le> \<bar>cos p * cos q\<bar>"
    using t by (simp add: abs_mult mult_left_le)
  then have "\<bar>sin p * sin q + cos p * cos q * t\<bar> \<le> \<bar>sin p * sin q\<bar> + \<bar>cos p * cos q\<bar>"
    by linarith
  also have "\<dots> \<le> ((sin p)\<^sup>2 + (sin q)\<^sup>2) / 2 + ((cos p)\<^sup>2 + (cos q)\<^sup>2) / 2"
    by (intro add_mono abs_mult_le_half_squares)
  also have "\<dots> = 1"
    by (simp add: sin_squared_eq field_simps)
  finally have b: "\<bar>sin p * sin q + cos p * cos q * t\<bar> \<le> 1" .
  show "0 \<le> h" using b by (simp add: h abs_le_iff)
  show "h \<le> 1" using b by (simp add: h abs_le_iff)
qed

lemma atan2_sqrt_arcsin:
  assumes "0 \<le> a" "a \<le> 1"
  shows "atan2 (sqrt a) (sqrt (1 - a)) = arcsin (sqrt a)"
proof (cases "a = 1")
  case True
  then show ?thesis by (simp add: atan2_def)
next
  case False
  define x where "x = arcsin (sqrt a)"
  have r: "0 \<le> sqrt a" "sqrt a < 1" using assms False by simp_all
  have x0: "0 \<le> x" using r by (simp add: x_def arcsin_nonneg)
  have "arcsin (sqrt a) < arcsin 1" using r by (intro arcsin_less_arcsin; linarith)
  then have x1: "x < pi / 2" by (simp add: x_def)
  have r': "- 1 \<le> sqrt a" "sqrt a \<le> 1" using r by linarith+
  have s: "sin x = sqrt a" unfolding x_def by (rule sin_arcsin [OF r'])
  have c: "cos x = sqrt (1 - a)"
    using assms by (simp add: x_def cos_arcsin [OF r'])
  have "atan2 (sin x) (cos x) = x" using x0 x1 by (rule atan2_sin_cos)
  then have "atan2 (sqrt a) (sqrt (1 - a)) = x" by (simp only: s c)
  then show ?thesis by (simp only: x_def)
qed

lemma calculateDistance_haversine:
  "calculateDistance lat1 lon1 lat2 lon2 = haversine_spec lat1 lon1 lat2 lon2"
proof -
  define p where "p = lat1 * pi / 180"
  define q where "q = lat2 * pi / 180"
  define l where "l = lon2 * pi / 180 - lon1 * pi / 180"
  define h where "h = hav (q - p) + cos p * cos q * hav l"
  have r: "0 \<le> h" "h \<le> 1" unfolding h_def by (rule haversine_range)+
  have d: "(lat2 - lat1) * pi / 180 = q - p" "(lon2 - lon1) * pi / 180 = l"
    by (simp_all add: p_def q_def l_def field_simps)
  have "calculateDistance lat1 lon1 lat2 lon2 = 6371000 * (2 * atan2 (sqrt h) (sqrt (1 - h)))"
    unfolding calculateDistance_def Let_def d h_def hav_def p_def q_def
    by (simp add: power2_eq_square algebra_simps)
  also have "\<dots> = 6371000 * (2 * arcsin (sqrt h))"
    by (simp only: atan2_sqrt_arcsin [OF r])
  also have "\<dots> = haversine_spec lat1 lon1 lat2 lon2"
    by (simp add: haversine_spec_def h_def p_def q_def l_def)
  finally show ?thesis .
qed




section \<open>The operations on a store whose maps have distinct keys\<close>

lemma addPolicePin_eq:
  assumes "is_Map (policePins st)"
  shows "addPolicePin now idNow stamp userId userName latitude longitude st =
     (let live = filter (\<lambda>(k, p). now - createdAt p \<le> 1200000) (policePins st) in
      if \<exists>(k, p) \<in> set live. pin_userId p = userId
           \<and> calculateDistance (pin_latitude p) (pin_longitude p) latitude longitude < 100
      then (\<lparr>success = False,
             error = Some ''Cannot place pin within 100 meters of your existing pins''\<rparr>,
            st\<lparr>policePins := live\<rparr>)
      else (\<lparr>success = True, error = None\<rparr>,
            st\<lparr>policePins :=
                 AList.update (userId @ ''-'' @ numberToString idNow)
                   \<lparr>pin_id = userId @ ''-'' @ numberToString idNow, pin_userId = userId,
                    pin_userName = userName, pin_latitude = latitude,
                    pin_longitude = longitude, createdAt = stamp\<rparr> live\<rparr>))"
proof -
  have live: "policePins (cleanStalePolicePins now st)
                = filter (\<lambda>(k, p). now - createdAt p \<le> 1200000) (policePins st)"
    using policePins_clean [OF assms, of now] by (simp add: not_less)
  have st1: "cleanStalePolicePins now st
               = st\<lparr>policePins := filter (\<lambda>(k, p). now - createdAt p \<le> 1200000) (policePins st)\<rparr>"
    using live by (simp add: cleanStalePolicePins_def)
  have ex: "pinWithin100 userId latitude longitude (map snd xs) \<longleftrightarrow>
              (\<exists>(k, p) \<in> set xs. pin_userId p = userId
                 \<and> calculateDistance (pin_latitude p) (pin_longitude p) latitude longitude < 100)"
    for xs :: "(string \<times> PolicePin) list"
    by (force simp: pinWithin100_iff)
  show ?thesis
    unfolding addPolicePin_def Let_def st1 by (auto simp: ex)
qed

lemma map_of_policePins_addPolicePin:
  assumes "is_Map (policePins st)"
    and "success (fst (addPolicePin now idNow stamp userId userName latitude longitude st))"
  shows "policePins (snd (addPolicePin now idNow stamp userId userName latitude longitude st))
           = AList.update (userId @ ''-'' @ numberToString idNow)
               \<lparr>pin_id = userId @ ''-'' @ numberToString idNow, pin_userId = userId,
                pin_userName = userName, pin_latitude = latitude,
                pin_longitude = longitude, createdAt = stamp\<rparr>
               (filter (\<lambda>(k, p). now - createdAt p \<le> 1200000) (policePins st))"
  using assms(2) by (auto simp: addPolicePin_eq [OF assms(1)] Let_def split: if_splits)

lemma is_Map_addPolicePin:
  assumes "is_Map (policePins st)"
  shows "is_Map (policePins (snd (addPolicePin now idNow stamp userId userName latitude longitude st)))"
  using assms by (simp add: addPolicePin_eq [OF assms] Let_def is_Map_update is_Map_filter)



lemma set_policePins_clean: "set (policePins (cleanStalePolicePins now st)) \<subseteq> set (policePins st)"
  by (simp add: cleanStalePolicePins_def fold_delete_conv)

lemma getAllLocations_eq:
  assumes "is_Map (activeLocations st)"
  shows "getAllLocations now st =
           (map snd (filter (\<lambda>(k, l). now - lastUpdated l \<le> 30000) (activeLocations st)),
            st\<lparr>activeLocations :=
                 filter (\<lambda>(k, l). now - lastUpdated l \<le> 30000) (activeLocations st)\<rparr>)"
  using activeLocations_clean [OF assms, of now]
  by (simp add: getAllLocations_def Let_def cleanStaleLocations_def not_less)

lemma updateLocation_eq:
  assumes "is_Map (activeLocations st)"
  shows "updateLocation now stamp userId latitude longitude name st =
           (\<lparr>success = True, error = None\<rparr>,
            st\<lparr>activeLocations :=
                 AList.update userId
                   \<lparr>loc_id = userId, loc_name = nameOrDefault name userId,
                    loc_latitude = latitude, loc_longitude = longitude, lastUpdated = stamp\<rparr>
                   (filter (\<lambda>(k, l). now - lastUpdated l \<le> 30000) (activeLocations st))\<rparr>)"
  using activeLocations_clean [OF assms, of now]
  by (simp add: updateLocation_def Let_def cleanStaleLocations_def not_less)

lemma is_Map_updateLocation:
  "is_Map (activeLocations st) \<Longrightarrow>
   is_Map (activeLocations (snd (updateLocation now stamp userId latitude longitude name st)))"
  by (simp add: updateLocation_eq is_Map_update is_Map_filter)

lemma filter_key_single:
  "is_Map m \<Longrightarrow> map_of m k = Some v \<Longrightarrow> filter (\<lambda>(k', v'). k' = k) m = [(k, v)]"
proof (induction m)
  case Nil
  then show ?case by simp
next
  case (Cons x m)
  obtain k' v' where x: "x = (k', v')" by (cases x)
  have m: "is_Map m" and fresh: "k' \<notin> fst ` set m"
    using Cons.prems(1) x by (auto simp: is_Map_def)
  show ?case
  proof (cases "k' = k")
    case True
    have "filter (\<lambda>(k', v'). k' = k) m = []"
      using fresh True by (force simp: filter_empty_conv)
    then show ?thesis using True x Cons.prems(2) by simp
  next
    case False
    then show ?thesis using x Cons.prems(2) Cons.IH [OF m] by simp
  qed
qed

lemma calculateDistance_antipode_far: "\<not> calculateDistance 0 0 0 180 < 100"
proof -
  have "100 \<le> 6371000 * (2::real)" by simp
  also have "\<dots> \<le> 6371000 * pi" using pi_ge_two by simp
  finally show ?thesis by (simp add: calculateDistance_antipode)
qed

section \<open>Every operation keeps the keys of both maps distinct\<close>

text \<open>The empty store has two maps with distinct keys, and every exported operation
  leaves such a store: the hypothesis \<open>is_Map\<close> of the claims holds in every store that
  the service reaches.\<close>

lemma is_Map_emptyStore:
  "is_Map (activeLocations emptyStore) \<and> is_Map (policePins emptyStore)"
  by (simp add: emptyStore_def is_Map_def)

lemma is_Map_cleanStaleLocations:
  "is_Map (activeLocations st) \<Longrightarrow> is_Map (activeLocations (cleanStaleLocations now st))"
  by (simp add: activeLocations_clean is_Map_filter)

lemma is_Map_cleanStalePolicePins:
  "is_Map (policePins st) \<Longrightarrow> is_Map (policePins (cleanStalePolicePins now st))"
  by (simp add: policePins_clean is_Map_filter)

lemma storeOk_updateLocation:
  assumes "storeOk st"
  shows "storeOk (snd (updateLocation now stamp userId latitude longitude name st))"
  using assms is_Map_cleanStaleLocations [of st now]
  by (simp add: storeOk_def updateLocation_def Let_def is_Map_update cleanStaleLocations_def)

lemma storeOk_removeLocation:
  assumes "storeOk st"
  shows "storeOk (snd (removeLocation userId st))"
  using assms by (simp add: storeOk_def removeLocation_def is_Map_delete)

lemma storeOk_getAllLocations:
  assumes "storeOk st"
  shows "storeOk (snd (getAllLocations now st))"
  using assms is_Map_cleanStaleLocations [of st now]
  by (simp add: storeOk_def getAllLocations_def Let_def cleanStaleLocations_def)

lemma storeOk_getLocationCount:
  assumes "storeOk st"
  shows "storeOk (snd (getLocationCount now st))"
  using assms is_Map_cleanStaleLocations [of st now]
  by (simp add: storeOk_def getLocationCount_def Let_def cleanStaleLocations_def)

lemma storeOk_addPolicePin:
  assumes "storeOk st"
  shows "storeOk (snd (addPolicePin now idNow stamp userId userName latitude longitude st))"
  using assms is_Map_cleanStalePolicePins [of st now]
  by (simp add: storeOk_def addPolicePin_def Let_def is_Map_update cleanStalePolicePins_def)

lemma storeOk_getAllPolicePins:
  assumes "storeOk st"
  shows "storeOk (snd (getAllPolicePins now st))"
  using assms is_Map_cleanStalePolicePins [of st now]
  by (simp add: storeOk_def getAllPolicePins_def Let_def cleanStalePolicePins_def)

section \<open>Claims\<close>

subsection \<open>Admission of a police pin\<close>

text \<open>
  Claim C1, as the claim states it: a call that is not rejected inserts a new pin with a
  fresh identifier. The identifier is the caller's id, a dash and the millisecond that
  \<open>Date.now()\<close> returns, and the pin is stored with \<open>set\<close>, which overwrites. The
  store holds the pin \<open>A-0\<close> of \<open>A\<close> at (0, 0); within the same millisecond \<open>A\<close>
  asks for a pin at (0, 180), half the equator away. The call succeeds, its identifier
  \<open>A-0\<close> is already a key, the pin map keeps its length and the old pin is gone.
\<close>

theorem addPolicePin_fresh_pinId_counterexample:
  "''A-0'' \<in> fst ` set (policePins storeA)
   \<and> addPolicePin 0 0 0 ''A'' ''Ann'' 0 180 storeA
       = (\<lparr>success = True, error = None\<rparr>,
          \<lparr>activeLocations = [], policePins = [(''A-0'', pinA180)]\<rparr>)
   \<and> length (policePins (snd (addPolicePin 0 0 0 ''A'' ''Ann'' 0 180 storeA)))
       = length (policePins storeA)
   \<and> map_of (policePins storeA) ''A-0'' = Some pinA0
   \<and> map_of (policePins (snd (addPolicePin 0 0 0 ''A'' ''Ann'' 0 180 storeA))) ''A-0''
       \<noteq> Some pinA0"
  using calculateDistance_antipode_far
  by (simp add: addPolicePin_def cleanStalePolicePins_def POLICE_PIN_THRESHOLD_def
      storeA_def pinA0_def pinA180_def numberToString_0 Let_def)

text \<open>
  Claim C1, amended. \<open>addPolicePin\<close> first evicts every pin whose age
  \<open>now - createdAt\<close> is strictly greater than 20 minutes (1200000 ms), so a pin aged
  exactly 20 minutes stays. Over the pins that remain and whose creator is the caller
  it compares the Haversine distance to the candidate point with 100: the call fails
  with the error message if and only if some such pin is strictly closer than 100
  metres. Otherwise it sets the entry under the identifier made of the caller's id and
  the reading of \<open>Date.now()\<close> to a pin with the arguments of the call and \<open>createdAt\<close>
  the reading of the clock at creation, and reports success; the pin is a new entry,
  after all the others, whenever that identifier is not the key of a pin that remains.
  The distance that the source computes with \<open>atan2\<close> is the Haversine formula with the
  Earth radius 6371000 m.
\<close>

theorem addPolicePin_admission:
  assumes "is_Map (policePins st)"
  shows "addPolicePin now idNow stamp userId userName latitude longitude st =
     (let live = filter (\<lambda>(k, p). now - createdAt p \<le> 1200000) (policePins st) in
      if \<exists>(k, p) \<in> set live. pin_userId p = userId
           \<and> calculateDistance (pin_latitude p) (pin_longitude p) latitude longitude < 100
      then (\<lparr>success = False,
             error = Some ''Cannot place pin within 100 meters of your existing pins''\<rparr>,
            st\<lparr>policePins := live\<rparr>)
      else (\<lparr>success = True, error = None\<rparr>,
            st\<lparr>policePins :=
                 AList.update (userId @ ''-'' @ numberToString idNow)
                   \<lparr>pin_id = userId @ ''-'' @ numberToString idNow, pin_userId = userId,
                    pin_userName = userName, pin_latitude = latitude,
                    pin_longitude = longitude, createdAt = stamp\<rparr> live\<rparr>))
         \<and> (success (fst (addPolicePin now idNow stamp userId userName latitude longitude st))
              \<and> userId @ ''-'' @ numberToString idNow
                    \<notin> fst ` set (filter (\<lambda>(k, p). now - createdAt p \<le> 1200000) (policePins st))
              \<longrightarrow> policePins (snd (addPolicePin now idNow stamp userId userName latitude longitude st))
                    = filter (\<lambda>(k, p). now - createdAt p \<le> 1200000) (policePins st)
                      @ [(userId @ ''-'' @ numberToString idNow,
                          \<lparr>pin_id = userId @ ''-'' @ numberToString idNow, pin_userId = userId,
                           pin_userName = userName, pin_latitude = latitude,
                           pin_longitude = longitude, createdAt = stamp\<rparr>)])
         \<and> (\<forall>lat1 lon1 lat2 lon2.
               calculateDistance lat1 lon1 lat2 lon2 = haversine_spec lat1 lon1 lat2 lon2)"
proof -
  have fresh: "policePins (snd (addPolicePin now idNow stamp userId userName latitude longitude st))
                    = filter (\<lambda>(k, p). now - createdAt p \<le> 1200000) (policePins st)
                      @ [(userId @ ''-'' @ numberToString idNow,
                          \<lparr>pin_id = userId @ ''-'' @ numberToString idNow, pin_userId = userId,
                           pin_userName = userName, pin_latitude = latitude,
                           pin_longitude = longitude, createdAt = stamp\<rparr>)]"
    if s: "success (fst (addPolicePin now idNow stamp userId userName latitude longitude st))"
      and k: "userId @ ''-'' @ numberToString idNow
                \<notin> fst ` set (filter (\<lambda>(k, p). now - createdAt p \<le> 1200000) (policePins st))"
    using map_of_policePins_addPolicePin [OF assms s] update_fresh_append [OF k] by simp
  show ?thesis
    using addPolicePin_eq [OF assms, of now idNow stamp userId userName latitude longitude]
      fresh calculateDistance_haversine
    by blast
qed

text \<open>
  At both boundaries: the store holds a pin of \<open>A\<close> created at time 0 at (0, 0); at time
  1200000, exactly 20 minutes later, \<open>A\<close> asks for a pin on the equator exactly 100
  metres away. The old pin is not evicted, the identifier is new, and the new pin is
  admitted after the old one.
\<close>

theorem addPolicePin_admission_witness:
  "is_Map (policePins storeA)
   \<and> calculateDistance (pin_latitude pinA0) (pin_longitude pinA0) 0 (18 / (6371 * pi)) = 100
   \<and> haversine_spec 0 0 0 (18 / (6371 * pi)) = 100
   \<and> ''A-1200000'' \<notin> fst ` set (policePins storeA)
   \<and> addPolicePin 1200000 1200000 1200000 ''A'' ''Ann'' 0 (18 / (6371 * pi)) storeA
       = (\<lparr>success = True, error = None\<rparr>,
          \<lparr>activeLocations = [],
           policePins = [(''A-0'', pinA0),
             (''A-1200000'', \<lparr>pin_id = ''A-1200000'', pin_userId = ''A'', pin_userName = ''Ann'',
                pin_latitude = 0, pin_longitude = 18 / (6371 * pi), createdAt = 1200000\<rparr>)]\<rparr>)"
proof -
  have m: "is_Map (policePins storeA)" by (simp add: storeA_def is_Map_def)
  have n: "numberToString 1200000 = ''1200000''"
    by (simp add: numberToString_def natToString.simps digitChar_def)
  note t = addPolicePin_admission [OF m, of 1200000 1200000 1200000 "''A''" "''Ann''" 0
      "18 / (6371 * pi)"]
  have d: "haversine_spec 0 0 0 (18 / (6371 * pi)) = 100"
    using conjunct2 [OF conjunct2 [OF t]] calculateDistance_100 by simp
  have a: "addPolicePin 1200000 1200000 1200000 ''A'' ''Ann'' 0 (18 / (6371 * pi)) storeA
       = (\<lparr>success = True, error = None\<rparr>,
          \<lparr>activeLocations = [],
           policePins = [(''A-0'', pinA0),
             (''A-1200000'', \<lparr>pin_id = ''A-1200000'', pin_userId = ''A'', pin_userName = ''Ann'',
                pin_latitude = 0, pin_longitude = 18 / (6371 * pi), createdAt = 1200000\<rparr>)]\<rparr>)"
    using conjunct1 [OF t] by (simp add: storeA_def pinA0_def calculateDistance_100 n)
  show ?thesis using m d a by (simp add: storeA_def pinA0_def calculateDistance_100)
qed

subsection \<open>Snapshot of the active locations\<close>

text \<open>
  Claim C2. \<open>getAllLocations\<close> deletes, in the store it leaves, every location whose age
  \<open>now - lastUpdated\<close> is strictly greater than 30 seconds (30000 ms) and returns exactly
  the locations that remain, in the order of the map. A location written by
  \<open>updateLocation\<close> with time stamp \<open>t0\<close> is in the snapshot read at \<open>t0 + 29999\<close> and is
  gone from the one read at \<open>t0 + 30001\<close>.
\<close>

theorem getAllLocations_evicts_stale:
  assumes "is_Map (activeLocations st)"
  shows "getAllLocations now st =
           (map snd (filter (\<lambda>(k, l). now - lastUpdated l \<le> 30000) (activeLocations st)),
            st\<lparr>activeLocations :=
                 filter (\<lambda>(k, l). now - lastUpdated l \<le> 30000) (activeLocations st)\<rparr>)
         \<and> map_of (activeLocations (snd (getAllLocations (t0 + 29999)
               (snd (updateLocation now0 t0 userId latitude longitude name st))))) userId
             = Some \<lparr>loc_id = userId, loc_name = nameOrDefault name userId,
                     loc_latitude = latitude, loc_longitude = longitude, lastUpdated = t0\<rparr>
         \<and> \<lparr>loc_id = userId, loc_name = nameOrDefault name userId,
             loc_latitude = latitude, loc_longitude = longitude, lastUpdated = t0\<rparr>
             \<in> set (fst (getAllLocations (t0 + 29999)
                   (snd (updateLocation now0 t0 userId latitude longitude name st))))
         \<and> map_of (activeLocations (snd (getAllLocations (t0 + 30001)
               (snd (updateLocation now0 t0 userId latitude longitude name st))))) userId
             = None"
proof -
  let ?loc = "\<lparr>loc_id = userId, loc_name = nameOrDefault name userId,
               loc_latitude = latitude, loc_longitude = longitude, lastUpdated = t0\<rparr>"
  let ?st1 = "snd (updateLocation now0 t0 userId latitude longitude name st)"
  have m1: "is_Map (activeLocations ?st1)" using assms by (rule is_Map_updateLocation)
  have l1: "map_of (activeLocations ?st1) userId = Some ?loc"
    by (simp add: updateLocation_eq [OF assms] update_conv')
  have a: "map_of (activeLocations (snd (getAllLocations (t0 + 29999) ?st1))) userId = Some ?loc"
    by (simp add: getAllLocations_eq [OF m1] map_of_filter_value [OF m1] l1)
  have b: "map_of (activeLocations (snd (getAllLocations (t0 + 30001) ?st1))) userId = None"
    by (simp add: getAllLocations_eq [OF m1] map_of_filter_value [OF m1] l1)
  have "(userId, ?loc) \<in> set (activeLocations (snd (getAllLocations (t0 + 29999) ?st1)))"
    using a by (rule map_of_SomeD)
  then have c: "?loc \<in> set (fst (getAllLocations (t0 + 29999) ?st1))"
    by (force simp: getAllLocations_eq [OF m1])
  show ?thesis using getAllLocations_eq [OF assms] a b c by simp
qed

text \<open>
  The user \<open>u1abc\<close> reports a position at time 0 into the empty store. The snapshots at
  29999 ms and at exactly 30000 ms return the record and leave the store as it is; the
  snapshot at 30001 ms is empty and leaves the empty store.
\<close>

theorem getAllLocations_evicts_stale_witness:
  "is_Map (activeLocations emptyStore) \<and> is_Map (activeLocations storeAnn)
   \<and> snd (updateLocation 0 0 ''u1abc'' 40 (- 73) (Some ''Ann'') emptyStore) = storeAnn
   \<and> getAllLocations 29999 storeAnn = ([locAnn], storeAnn)
   \<and> getAllLocations 30000 storeAnn = ([locAnn], storeAnn)
   \<and> getAllLocations 30001 storeAnn = ([], emptyStore)"
proof -
  have e: "is_Map (activeLocations emptyStore)" by (simp add: emptyStore_def is_Map_def)
  have m: "is_Map (activeLocations storeAnn)" by (simp add: storeAnn_def is_Map_def)
  have u: "snd (updateLocation 0 0 ''u1abc'' 40 (- 73) (Some ''Ann'') emptyStore) = storeAnn"
    using updateLocation_eq [OF e, of 0 0 "''u1abc''" 40 "- 73" "Some ''Ann''"]
    by (simp add: emptyStore_def storeAnn_def locAnn_def nameOrDefault_def)
  show ?thesis
    using e m u getAllLocations_evicts_stale [OF m, of 29999]
      getAllLocations_evicts_stale [OF m, of 30000] getAllLocations_evicts_stale [OF m, of 30001]
    by (simp add: storeAnn_def locAnn_def emptyStore_def)
qed

subsection \<open>The exclusion rule and the creator of a pin\<close>

text \<open>
  Claim C3, as the claim states it: whenever a subject \<open>A\<close> holds a live pin, a call by
  any other subject \<open>B\<close> succeeds at any coordinates. This fails when \<open>B\<close> holds a live
  pin of its own near the point. From the empty store \<open>A\<close> and then \<open>B\<close> place a pin at
  (0, 0), both with success; \<open>A\<close> holds its live pin, and the next call of \<open>B\<close> at (0, 0)
  is rejected.
\<close>

theorem addPolicePin_other_creator_counterexample:
  "addPolicePin 0 0 0 ''A'' ''Ann'' 0 0 emptyStore = (\<lparr>success = True, error = None\<rparr>, storeA)
   \<and> addPolicePin 0 0 0 ''B'' ''Bob'' 0 0 storeA = (\<lparr>success = True, error = None\<rparr>, storeAB)
   \<and> ''B'' \<noteq> ''A''
   \<and> map_of (policePins storeAB) ''A-0'' = Some pinA0
   \<and> \<not> success (fst (addPolicePin 0 0 0 ''B'' ''Bob'' 0 0 storeAB))"
  by (simp add: addPolicePin_def cleanStalePolicePins_def POLICE_PIN_THRESHOLD_def emptyStore_def
      storeA_def storeAB_def pinA0_def pinB0_def calculateDistance_same numberToString_0 Let_def)

text \<open>
  Claim C3, amended. The exclusion check looks at the caller's own pins only: a call by
  \<open>B\<close> succeeds if and only if no live pin created by \<open>B\<close> itself lies strictly closer
  than 100 metres to the point, whatever pins other subjects hold there; and a call by
  the creator of a live pin at a point strictly closer than 100 metres to that pin is
  rejected.
\<close>

theorem addPolicePin_per_creator:
  assumes "is_Map (policePins st)"
  shows "(success (fst (addPolicePin now idNow stamp userB userName latitude longitude st))
            \<longleftrightarrow> \<not> (\<exists>(k, p) \<in> set (policePins st).
                      pin_userId p = userB \<and> now - createdAt p \<le> 1200000
                      \<and> calculateDistance (pin_latitude p) (pin_longitude p) latitude longitude < 100))
         \<and> ((kA, pA) \<in> set (policePins st) \<and> now - createdAt pA \<le> 1200000
              \<and> calculateDistance (pin_latitude pA) (pin_longitude pA) latitude longitude < 100
             \<longrightarrow> \<not> success (fst (addPolicePin now idNow stamp (pin_userId pA) userName
                                   latitude longitude st)))"
  by (auto simp: addPolicePin_eq [OF assms] Let_def)

text \<open>
  \<open>A\<close> holds a live pin at (0, 0): \<open>B\<close> places a pin at the same point, \<open>A\<close> does not.
\<close>

theorem addPolicePin_per_creator_witness:
  "is_Map (policePins storeA)
   \<and> (''A-0'', pinA0) \<in> set (policePins storeA) \<and> 0 - createdAt pinA0 \<le> 1200000
   \<and> calculateDistance (pin_latitude pinA0) (pin_longitude pinA0) 0 0 < 100
   \<and> success (fst (addPolicePin 0 0 0 ''B'' ''Bob'' 0 0 storeA))
   \<and> \<not> success (fst (addPolicePin 0 0 0 ''A'' ''Ann'' 0 0 storeA))"
proof -
  have m: "is_Map (policePins storeA)" by (simp add: storeA_def is_Map_def)
  show ?thesis
    using m
      addPolicePin_per_creator [OF m, of 0 0 0 "''B''" "''Bob''" 0 0 "''A-0''" pinA0]
      addPolicePin_per_creator [OF m, of 0 0 0 "''A''" "''Ann''" 0 0 "''A-0''" pinA0]
    by (simp add: storeA_def pinA0_def calculateDistance_same)
qed

subsection \<open>A rejected pin leaves nothing behind\<close>

text \<open>
  Claim C4. A call of \<open>addPolicePin\<close> that does not succeed returns the value with
  \<open>success = False\<close> and the error message, and the store it leaves is the store after
  the eviction pass: no entry of the pin map is new and the active locations are
  untouched. The rejection is a returned value; the model has no other outcome.
\<close>

theorem addPolicePin_fail_closed:
  assumes "\<not> success (fst (addPolicePin now idNow stamp userId userName latitude longitude st))"
  shows "addPolicePin now idNow stamp userId userName latitude longitude st
           = (\<lparr>success = False,
               error = Some ''Cannot place pin within 100 meters of your existing pins''\<rparr>,
              cleanStalePolicePins now st)
         \<and> set (policePins (cleanStalePolicePins now st)) \<subseteq> set (policePins st)
         \<and> activeLocations (cleanStalePolicePins now st) = activeLocations st"
proof -
  have "pinWithin100 userId latitude longitude (map snd (policePins (cleanStalePolicePins now st)))"
    using assms by (auto simp: addPolicePin_def Let_def split: if_splits)
  then have "addPolicePin now idNow stamp userId userName latitude longitude st
           = (\<lparr>success = False,
               error = Some ''Cannot place pin within 100 meters of your existing pins''\<rparr>,
              cleanStalePolicePins now st)"
    by (simp add: addPolicePin_def Let_def)
  moreover have "activeLocations (cleanStalePolicePins now st) = activeLocations st"
    by (simp add: cleanStalePolicePins_def)
  ultimately show ?thesis using set_policePins_clean [of now st] by simp
qed

text \<open>One minute after its pin at (0, 0), \<open>A\<close> asks for a second pin at the same point.\<close>

theorem addPolicePin_fail_closed_witness:
  "\<not> success (fst (addPolicePin 60000 60000 60000 ''A'' ''Ann'' 0 0 storeA))
   \<and> addPolicePin 60000 60000 60000 ''A'' ''Ann'' 0 0 storeA
       = (\<lparr>success = False,
           error = Some ''Cannot place pin within 100 meters of your existing pins''\<rparr>, storeA)"
proof -
  have f: "\<not> success (fst (addPolicePin 60000 60000 60000 ''A'' ''Ann'' 0 0 storeA))"
    by (simp add: addPolicePin_def cleanStalePolicePins_def POLICE_PIN_THRESHOLD_def storeA_def
        pinA0_def calculateDistance_same)
  have c: "cleanStalePolicePins 60000 storeA = storeA"
    by (simp add: cleanStalePolicePins_def POLICE_PIN_THRESHOLD_def storeA_def pinA0_def)
  show ?thesis using f addPolicePin_fail_closed [OF f] by (simp add: c)
qed

subsection \<open>An update replaces the record\<close>

text \<open>
  Claim C5. \<open>updateLocation\<close> always succeeds and sets the entry of the user to a record
  made of the arguments of this call alone, with \<open>lastUpdated\<close> the reading of the clock
  at the write: the name is the given one, or \<open>User\<close> followed by a blank and the first
  four characters of the id when no name or the empty name is given. Nothing of a
  record that the store held for the id before goes into it, and the map holds exactly
  one entry for the id afterwards.
\<close>

theorem updateLocation_replaces:
  assumes "is_Map (activeLocations st)"
  shows "updateLocation now stamp userId latitude longitude name st =
           (\<lparr>success = True, error = None\<rparr>,
            st\<lparr>activeLocations :=
                 AList.update userId
                   \<lparr>loc_id = userId,
                    loc_name = (if name = None \<or> name = Some [] then ''User '' @ take 4 userId
                                else the name),
                    loc_latitude = latitude, loc_longitude = longitude, lastUpdated = stamp\<rparr>
                   (filter (\<lambda>(k, l). now - lastUpdated l \<le> 30000) (activeLocations st))\<rparr>)
         \<and> filter (\<lambda>(k, l). k = userId)
              (activeLocations (snd (updateLocation now stamp userId latitude longitude name st)))
             = [(userId,
                 \<lparr>loc_id = userId,
                  loc_name = (if name = None \<or> name = Some [] then ''User '' @ take 4 userId
                              else the name),
                  loc_latitude = latitude, loc_longitude = longitude, lastUpdated = stamp\<rparr>)]"
proof -
  have n: "nameOrDefault name userId
             = (if name = None \<or> name = Some [] then ''User '' @ take 4 userId else the name)"
    by (cases name) (simp_all add: nameOrDefault_def)
  have e: "updateLocation now stamp userId latitude longitude name st =
           (\<lparr>success = True, error = None\<rparr>,
            st\<lparr>activeLocations :=
                 AList.update userId
                   \<lparr>loc_id = userId,
                    loc_name = (if name = None \<or> name = Some [] then ''User '' @ take 4 userId
                                else the name),
                    loc_latitude = latitude, loc_longitude = longitude, lastUpdated = stamp\<rparr>
                   (filter (\<lambda>(k, l). now - lastUpdated l \<le> 30000) (activeLocations st))\<rparr>)"
    using updateLocation_eq [OF assms, of now stamp userId latitude longitude name]
    by (simp only: n)
  have m1: "is_Map (activeLocations (snd (updateLocation now stamp userId latitude longitude name st)))"
    using assms by (rule is_Map_updateLocation)
  have "filter (\<lambda>(k, l). k = userId)
              (activeLocations (snd (updateLocation now stamp userId latitude longitude name st)))
             = [(userId,
                 \<lparr>loc_id = userId,
                  loc_name = (if name = None \<or> name = Some [] then ''User '' @ take 4 userId
                              else the name),
                  loc_latitude = latitude, loc_longitude = longitude, lastUpdated = stamp\<rparr>)]"
    by (rule filter_key_single [OF m1]) (simp add: e update_conv')
  with e show ?thesis by simp
qed

text \<open>
  The store holds the record of \<open>u1abc\<close> with the name \<open>Ann\<close>, written at time 0. Five
  seconds later the user reports a new position, once without a name, once with the
  empty name and once with the name \<open>Bea\<close>: the stored name is the derived label in the
  first two cases, never \<open>Ann\<close>.
\<close>

theorem updateLocation_replaces_witness:
  "is_Map (activeLocations storeAnn)
   \<and> map_of (activeLocations storeAnn) ''u1abc'' = Some locAnn
   \<and> updateLocation 5000 5000 ''u1abc'' 41 (- 74) None storeAnn =
       (\<lparr>success = True, error = None\<rparr>,
        \<lparr>activeLocations = [(''u1abc'',
            \<lparr>loc_id = ''u1abc'', loc_name = ''User u1ab'', loc_latitude = 41,
             loc_longitude = - 74, lastUpdated = 5000\<rparr>)],
         policePins = []\<rparr>)
   \<and> updateLocation 5000 5000 ''u1abc'' 41 (- 74) (Some []) storeAnn =
       (\<lparr>success = True, error = None\<rparr>,
        \<lparr>activeLocations = [(''u1abc'',
            \<lparr>loc_id = ''u1abc'', loc_name = ''User u1ab'', loc_latitude = 41,
             loc_longitude = - 74, lastUpdated = 5000\<rparr>)],
         policePins = []\<rparr>)
   \<and> updateLocation 5000 5000 ''u1abc'' 41 (- 74) (Some ''Bea'') storeAnn =
       (\<lparr>success = True, error = None\<rparr>,
        \<lparr>activeLocations = [(''u1abc'',
            \<lparr>loc_id = ''u1abc'', loc_name = ''Bea'', loc_latitude = 41,
             loc_longitude = - 74, lastUpdated = 5000\<rparr>)],
         policePins = []\<rparr>)"
proof -
  have m: "is_Map (activeLocations storeAnn)" by (simp add: storeAnn_def is_Map_def)
  show ?thesis
    using m updateLocation_replaces [OF m, of 5000 5000 "''u1abc''" 41 "- 74" None]
      updateLocation_replaces [OF m, of 5000 5000 "''u1abc''" 41 "- 74" "Some []"]
      updateLocation_replaces [OF m, of 5000 5000 "''u1abc''" 41 "- 74" "Some ''Bea''"]
    by (simp add: storeAnn_def locAnn_def)
qed

subsection \<open>Removal\<close>

text \<open>
  Claim C6. \<open>removeLocation\<close> is total and idempotent: in every state and for every
  user id, present or absent, the call reports success and no error, the id is absent
  afterwards, and a second call returns the same result and leaves the state that the
  first call left.
\<close>

theorem removeLocation_total_idempotent:
  "fst (removeLocation userId st) = \<lparr>success = True, error = None\<rparr>
   \<and> map_of (activeLocations (snd (removeLocation userId st))) userId = None
   \<and> removeLocation userId (snd (removeLocation userId st)) = removeLocation userId st"
  by (simp add: removeLocation_def delete_idem delete_conv')

subsection \<open>Counting\<close>

text \<open>
  Claim C7. At every state and clock value \<open>getLocationCount\<close> returns the length of
  the list that \<open>getAllLocations\<close> returns, and both leave the same state: both run the
  same eviction pass before they read the map.
\<close>

theorem getLocationCount_is_length_of_getAllLocations:
  "fst (getLocationCount now st) = length (fst (getAllLocations now st))
   \<and> snd (getLocationCount now st) = snd (getAllLocations now st)
   \<and> snd (getLocationCount now st) = cleanStaleLocations now st"
  by (simp add: getLocationCount_def getAllLocations_def Let_def)

subsection \<open>Pin identifiers\<close>

text \<open>
  Claim C8, as the claim states it: the identifiers of two distinct successful calls
  always differ, so that no insertion replaces a live pin. The identifier is the
  caller's id, a dash and the millisecond that \<open>Date.now()\<close> returns. From the empty
  store \<open>A\<close> places a pin at (0, 0) and, within the same millisecond, a pin at (0, 180),
  half the equator away. Both calls succeed with the identifier \<open>A-0\<close>, and the pin map
  holds one entry afterwards: the second pin has replaced the first.
\<close>

theorem pinId_same_millisecond_counterexample:
  "addPolicePin 0 0 0 ''A'' ''Ann'' 0 0 emptyStore = (\<lparr>success = True, error = None\<rparr>, storeA)
   \<and> policePins storeA = [(''A-0'', pinA0)]
   \<and> addPolicePin 0 0 0 ''A'' ''Ann'' 0 180 storeA
       = (\<lparr>success = True, error = None\<rparr>,
          \<lparr>activeLocations = [], policePins = [(''A-0'', pinA180)]\<rparr>)
   \<and> pinA180 \<noteq> pinA0"
  using calculateDistance_antipode_far
  by (simp add: addPolicePin_def cleanStalePolicePins_def POLICE_PIN_THRESHOLD_def emptyStore_def
      storeA_def pinA0_def pinA180_def calculateDistance_same numberToString_0 Let_def)

text \<open>
  Claim C8, amended. The identifiers of two successful calls differ whenever the
  creators differ or the readings of \<open>Date.now()\<close>, both non-negative, differ. The second
  insertion then does not replace the pin of the first call: as long as that pin is
  still live at the second call, both pins are entries of the pin map afterwards, each
  under its own identifier.
\<close>

theorem pinIds_differ_and_pins_coexist:
  assumes "is_Map (policePins st)" and "0 \<le> idNow1" and "0 \<le> idNow2"
    and "user1 \<noteq> user2 \<or> idNow1 \<noteq> idNow2"
    and "success (fst (addPolicePin now1 idNow1 stamp1 user1 name1 lat1 lon1 st))"
    and "success (fst (addPolicePin now2 idNow2 stamp2 user2 name2 lat2 lon2
                    (snd (addPolicePin now1 idNow1 stamp1 user1 name1 lat1 lon1 st))))"
    and "now2 - stamp1 \<le> 1200000"
  shows "user1 @ ''-'' @ numberToString idNow1 \<noteq> user2 @ ''-'' @ numberToString idNow2
         \<and> map_of (policePins (snd (addPolicePin now2 idNow2 stamp2 user2 name2 lat2 lon2
                     (snd (addPolicePin now1 idNow1 stamp1 user1 name1 lat1 lon1 st)))))
               (user1 @ ''-'' @ numberToString idNow1)
             = Some \<lparr>pin_id = user1 @ ''-'' @ numberToString idNow1, pin_userId = user1,
                     pin_userName = name1, pin_latitude = lat1, pin_longitude = lon1,
                     createdAt = stamp1\<rparr>
         \<and> map_of (policePins (snd (addPolicePin now2 idNow2 stamp2 user2 name2 lat2 lon2
                     (snd (addPolicePin now1 idNow1 stamp1 user1 name1 lat1 lon1 st)))))
               (user2 @ ''-'' @ numberToString idNow2)
             = Some \<lparr>pin_id = user2 @ ''-'' @ numberToString idNow2, pin_userId = user2,
                     pin_userName = name2, pin_latitude = lat2, pin_longitude = lon2,
                     createdAt = stamp2\<rparr>"
proof -
  let ?st1 = "snd (addPolicePin now1 idNow1 stamp1 user1 name1 lat1 lon1 st)"
  let ?id1 = "user1 @ ''-'' @ numberToString idNow1"
  let ?id2 = "user2 @ ''-'' @ numberToString idNow2"
  let ?pin1 = "\<lparr>pin_id = ?id1, pin_userId = user1, pin_userName = name1, pin_latitude = lat1,
                pin_longitude = lon1, createdAt = stamp1\<rparr>"
  have ne: "?id1 \<noteq> ?id2"
    using assms(4) pinId_inj [OF assms(2,3), of user1 user2] by auto
  have m1: "is_Map (policePins ?st1)" using assms(1) by (rule is_Map_addPolicePin)
  have p1: "map_of (policePins ?st1) ?id1 = Some ?pin1"
    by (simp add: map_of_policePins_addPolicePin [OF assms(1) assms(5)] update_conv')
  have live: "map_of (filter (\<lambda>(k, p). now2 - createdAt p \<le> 1200000) (policePins ?st1)) ?id1
                = Some ?pin1"
    using assms(7) p1 by (simp add: map_of_filter_value [OF m1])
  show ?thesis
    using ne live
    by (simp add: map_of_policePins_addPolicePin [OF m1 assms(6)] update_conv')
qed

text \<open>
  \<open>A\<close> places a pin at (0, 0) at millisecond 0 and a pin at (0, 180) at millisecond 1:
  the pin map holds both, under \<open>A-0\<close> and \<open>A-1\<close>.
\<close>

theorem pinIds_differ_and_pins_coexist_witness:
  "is_Map (policePins emptyStore) \<and> (0::int) \<le> 0 \<and> (0::int) \<le> 1 \<and> (0::int) \<noteq> 1
   \<and> (1::int) - 0 \<le> 1200000
   \<and> success (fst (addPolicePin 0 0 0 ''A'' ''Ann'' 0 0 emptyStore))
   \<and> success (fst (addPolicePin 1 1 1 ''A'' ''Ann'' 0 180
                (snd (addPolicePin 0 0 0 ''A'' ''Ann'' 0 0 emptyStore))))
   \<and> map_of (policePins (snd (addPolicePin 1 1 1 ''A'' ''Ann'' 0 180
                (snd (addPolicePin 0 0 0 ''A'' ''Ann'' 0 0 emptyStore))))) ''A-0''
       = Some pinA0
   \<and> map fst (policePins (snd (addPolicePin 1 1 1 ''A'' ''Ann'' 0 180
                (snd (addPolicePin 0 0 0 ''A'' ''Ann'' 0 0 emptyStore)))))
       = [''A-0'', ''A-1'']"
proof -
  have m: "is_Map (policePins emptyStore)" by (simp add: emptyStore_def is_Map_def)
  have n1: "numberToString 1 = ''1''"
    by (simp add: numberToString_def natToString_small digitChar_simps)
  have s1: "addPolicePin 0 0 0 ''A'' ''Ann'' 0 0 emptyStore
              = (\<lparr>success = True, error = None\<rparr>, storeA)"
    by (simp add: addPolicePin_def cleanStalePolicePins_def emptyStore_def storeA_def pinA0_def
        numberToString_0 Let_def)
  have s2: "success (fst (addPolicePin 1 1 1 ''A'' ''Ann'' 0 180 storeA))"
    using calculateDistance_antipode_far
    by (simp add: addPolicePin_def cleanStalePolicePins_def POLICE_PIN_THRESHOLD_def storeA_def
        pinA0_def Let_def)
  have d: "''A'' \<noteq> ''A'' \<or> (0::int) \<noteq> 1" by simp
  have "map_of (policePins (snd (addPolicePin 1 1 1 ''A'' ''Ann'' 0 180
                (snd (addPolicePin 0 0 0 ''A'' ''Ann'' 0 0 emptyStore))))) ''A-0'' = Some pinA0"
    using pinIds_differ_and_pins_coexist [OF m _ _ d, of 0 0 "''Ann''" 0 0 1 1 "''Ann''" 0 180]
      s1 s2
    by (simp add: numberToString_0 n1 pinA0_def)
  moreover have "map fst (policePins (snd (addPolicePin 1 1 1 ''A'' ''Ann'' 0 180 storeA)))
       = [''A-0'', ''A-1'']"
    using calculateDistance_antipode_far
    by (simp add: addPolicePin_def cleanStalePolicePins_def POLICE_PIN_THRESHOLD_def storeA_def
        pinA0_def Let_def n1)
  ultimately show ?thesis using m s1 s2 by simp
qed

subsection \<open>Two simultaneous calls of one subject\<close>




subsection \<open>A write evicts stale locations\<close>

text \<open>
  Claim C10. \<open>updateLocation\<close> runs the eviction pass before it writes: in the store it
  leaves, the entry of every other user is deleted when its age \<open>now - lastUpdated\<close> is
  strictly greater than 30 seconds (30000 ms) and is unchanged otherwise. The map
  afterwards is the map without its stale entries, with the entry of the caller set.
\<close>

theorem updateLocation_evicts_stale_others:
  assumes "is_Map (activeLocations st)" and "k \<noteq> userId"
  shows "map_of (activeLocations (snd (updateLocation now stamp userId latitude longitude name st))) k
           = (case map_of (activeLocations st) k of
                None \<Rightarrow> None
              | Some l \<Rightarrow> if now - lastUpdated l > 30000 then None else Some l)
         \<and> activeLocations (snd (updateLocation now stamp userId latitude longitude name st))
             = AList.update userId
                 \<lparr>loc_id = userId, loc_name = nameOrDefault name userId,
                  loc_latitude = latitude, loc_longitude = longitude, lastUpdated = stamp\<rparr>
                 (filter (\<lambda>(k, l). \<not> now - lastUpdated l > 30000) (activeLocations st))"
proof -
  have "map_of (activeLocations (snd (updateLocation now stamp userId latitude longitude name st))) k
          = map_of (filter (\<lambda>(k, l). now - lastUpdated l \<le> 30000) (activeLocations st)) k"
    using assms(2) by (simp add: updateLocation_eq [OF assms(1)] update_conv')
  also have "\<dots> = (case map_of (activeLocations st) k of
                None \<Rightarrow> None
              | Some l \<Rightarrow> if now - lastUpdated l > 30000 then None else Some l)"
    by (simp add: map_of_filter_value [OF assms(1)] not_less split: option.splits)
  finally show ?thesis by (simp add: updateLocation_eq [OF assms(1)] not_less)
qed

text \<open>
  The store holds \<open>old\<close>, written at time 0, and \<open>u1abc\<close>, written at time 1. A write by
  \<open>new\<close> at 30001 ms deletes \<open>old\<close> and keeps \<open>u1abc\<close>; a write at exactly 30000 ms
  keeps both.
\<close>

theorem updateLocation_evicts_stale_others_witness:
  "is_Map (activeLocations storeTwo) \<and> ''old'' \<noteq> ''new''
   \<and> map fst (activeLocations storeTwo) = [''old'', ''u1abc'']
   \<and> map fst (activeLocations (snd (updateLocation 30001 30001 ''new'' 3 4 None storeTwo)))
       = [''u1abc'', ''new'']
   \<and> map_of (activeLocations (snd (updateLocation 30001 30001 ''new'' 3 4 None storeTwo))) ''old''
       = None
   \<and> map_of (activeLocations (snd (updateLocation 30000 30000 ''new'' 3 4 None storeTwo))) ''old''
       = Some locOld"
proof -
  have m: "is_Map (activeLocations storeTwo)" by (simp add: storeTwo_def is_Map_def)
  have k: "''old'' \<noteq> ''new''" by simp
  show ?thesis
    using m updateLocation_evicts_stale_others [OF m k, of 30001 30001 3 4 None]
      updateLocation_evicts_stale_others [OF m k, of 30000 30000 3 4 None]
    by (simp add: storeTwo_def locOld_def locAnn_def)
qed

end
